theory Spec2Isabelle
  imports Complex_Main "HOL-Library.AList"
begin

section \<open>The library checkout engine of \<^verbatim>\<open>TestingFile.py\<close>\<close>

text \<open>
  The development embeds the classes of \<^verbatim>\<open>src/TestingFile.py\<close>: the entity model
  (\<^verbatim>\<open>LibraryUser\<close>, \<^verbatim>\<open>LibraryItem\<close> and its three subclasses), the persistence layer
  (\<^verbatim>\<open>LibraryDatabase\<close>) and the engine (\<^verbatim>\<open>LibrarySystem\<close>).

  Modelling decisions, each following the source:
  \<^item> a Python \<^verbatim>\<open>dict\<close> keeps insertion order and \<^verbatim>\<open>d[k] = v\<close> overwrites in place or
    appends; this is an association list with \<open>AList.update\<close>, and \<^verbatim>\<open>d.get(k)\<close> is
    \<open>map_of\<close>;
  \<^item> objects are mutated in place in the source; the engine never stores one object
    under two keys, so the model replaces the entry under the key the object was found at;
  \<^item> a naive \<^verbatim>\<open>datetime\<close> is a point on a linear time line, counted in microseconds
    (\<open>int\<close>); a \<^verbatim>\<open>timedelta\<close> is a number of microseconds and its \<^verbatim>\<open>.days\<close> attribute is
    the floor of the division by one day. The year range of \<^verbatim>\<open>datetime\<close> (1 to 9999)
    is not modelled;
  \<^item> every \<^verbatim>\<open>datetime.now()\<close> of the source is an argument of the operation that reads
    the clock, one argument per read;
  \<^item> \<^verbatim>\<open>uuid.uuid4()\<close> is an argument of the constructor that calls it;
  \<^item> amounts of money are Python floats in the source. They are idealised as exact
    rationals (\<open>rat\<close>): every finite float is a rational, the three daily rates
    \<open>0.5\<close>, \<open>1.0\<close> and \<open>0.25\<close> are exact in binary, and rounding, infinities and NaN
    are outside the model;
  \<^item> an exception is a value of type \<open>exn\<close>, carrying its class and its message; an
    operation returns \<open>exn + result\<close>. Every \<^verbatim>\<open>raise\<close> of the source happens before the
    first mutation of the operation, so a failed operation leaves the store as it was;
  \<^item> the log file written by \<^verbatim>\<open>Logger\<close> is not part of the model. The data file written
    by \<^verbatim>\<open>save_data\<close> at the end of every operation is modelled by \<open>save_data\<close> below, as a
    function of the store. Failures of the file system are not modelled.
\<close>

subsection \<open>Enumerations and exceptions\<close>

datatype ItemStatus = AVAILABLE | CHECKED_OUT | RESERVED | MAINTENANCE | LOST

datatype UserRole = STUDENT | FACULTY | LIBRARIAN | ADMIN

text \<open>
  The exception classes of the source are \<^verbatim>\<open>LibraryException\<close> and its two subclasses.
  \<^verbatim>\<open>ValueError\<close> is what \<^verbatim>\<open>list.remove\<close>, \<^verbatim>\<open>UserRole(...)\<close>, \<^verbatim>\<open>ItemStatus(...)\<close> and
  \<^verbatim>\<open>datetime.fromisoformat\<close> raise, \<^verbatim>\<open>KeyError\<close> a missing key of a loaded record.
\<close>

datatype exn =
    LibraryException string
  | ItemNotAvailableException string
  | UserNotFoundException string
  | ValueError string
  | KeyError string
  | TypeError string
  | UnboundLocalError string




subsection \<open>Time\<close>

type_synonym datetime = int
type_synonym timedelta = int

definition timedelta_days :: "int \<Rightarrow> timedelta" where
  \<comment> \<open>\<^verbatim>\<open>timedelta(days=n)\<close>\<close>
  "timedelta_days n = n * 86400000000"

definition days :: "timedelta \<Rightarrow> int" where
  \<comment> \<open>the \<^verbatim>\<open>.days\<close> attribute: a timedelta is normalised with
      \<open>0 \<le> seconds < 86400\<close>, so \<^verbatim>\<open>.days\<close> is the floor\<close>
  "days td = td div 86400000000"

subsection \<open>Entities\<close>

text \<open>
  \<^verbatim>\<open>Person\<close> and \<^verbatim>\<open>LibraryUser\<close> flattened into one record. The field \<^verbatim>\<open>id\<close> of the
  source is \<open>u_id\<close> here and \<open>i_id\<close> on items, \<open>id\<close> being the identity function of HOL.
\<close>

record LibraryUser =
  u_id :: string
  name :: string
  email :: string
  phone :: string
  role :: UserRole
  borrowed_items :: "string list"
  reserved_items :: "string list"
  fines :: rat

definition LibraryUser_init ::
  "string \<Rightarrow> string \<Rightarrow> string \<Rightarrow> string \<Rightarrow> UserRole \<Rightarrow> LibraryUser" where
  \<comment> \<open>the first argument is the value of \<^verbatim>\<open>str(uuid.uuid4())\<close>\<close>
  "LibraryUser_init uuid nm em ph r =
     \<lparr>u_id = uuid, name = nm, email = em, phone = ph, role = r,
      borrowed_items = [], reserved_items = [], fines = 0\<rparr>"

text \<open>
  The subclasses of \<^verbatim>\<open>LibraryItem\<close> differ in their own fields and in the two
  methods \<^verbatim>\<open>get_checkout_duration\<close> and \<^verbatim>\<open>get_daily_fine\<close>: the subclass is a tagged
  payload of the item record.
\<close>

datatype ItemKind =
    Book string string string int string
      \<comment> \<open>author, isbn, publisher, publication\_year, edition\<close>
  | DVD string int int
      \<comment> \<open>director, runtime, release\_year\<close>
  | Magazine string string datetime
      \<comment> \<open>publisher, issue\_number, publication\_date\<close>

record LibraryItem =
  i_id :: string
  title :: string
  location :: string
  cost :: rat
  status :: ItemStatus
  checked_out_to :: "string option"
  due_date :: "datetime option"
  reserved_by :: "string list"
  kind :: ItemKind

definition LibraryItem_init ::
  "string \<Rightarrow> string \<Rightarrow> string \<Rightarrow> rat \<Rightarrow> ItemKind \<Rightarrow> LibraryItem" where
  \<comment> \<open>\<^verbatim>\<open>LibraryItem.__init__\<close>, followed by the assignments of the subclass constructor\<close>
  "LibraryItem_init uuid t loc c k =
     \<lparr>i_id = uuid, title = t, location = loc, cost = c, status = AVAILABLE,
      checked_out_to = None, due_date = None, reserved_by = [], kind = k\<rparr>"

definition Book_init ::
  "string \<Rightarrow> string \<Rightarrow> string \<Rightarrow> string \<Rightarrow> string \<Rightarrow> rat \<Rightarrow> string \<Rightarrow> int \<Rightarrow> string
     \<Rightarrow> LibraryItem" where
  "Book_init uuid t author isbn loc c publisher publication_year edition =
     LibraryItem_init uuid t loc c (Book author isbn publisher publication_year edition)"

definition DVD_init ::
  "string \<Rightarrow> string \<Rightarrow> string \<Rightarrow> string \<Rightarrow> rat \<Rightarrow> int \<Rightarrow> int \<Rightarrow> LibraryItem" where
  "DVD_init uuid t director loc c runtime release_year =
     LibraryItem_init uuid t loc c (DVD director runtime release_year)"

definition Magazine_init ::
  "string \<Rightarrow> string \<Rightarrow> string \<Rightarrow> string \<Rightarrow> rat \<Rightarrow> string \<Rightarrow> datetime \<Rightarrow> LibraryItem" where
  "Magazine_init uuid t publisher loc c issue_number publication_date =
     LibraryItem_init uuid t loc c (Magazine publisher issue_number publication_date)"

fun get_checkout_duration :: "LibraryItem \<Rightarrow> timedelta" where
  "get_checkout_duration it =
     (case kind it of
        Book a i p y e \<Rightarrow> timedelta_days 21
      | DVD d r y \<Rightarrow> timedelta_days 7
      | Magazine p n d \<Rightarrow> timedelta_days 14)"

fun get_daily_fine :: "LibraryItem \<Rightarrow> rat" where
  "get_daily_fine it =
     (case kind it of
        Book a i p y e \<Rightarrow> 1 / 2
      | DVD d r y \<Rightarrow> 1
      | Magazine p n d \<Rightarrow> 1 / 4)"

subsection \<open>The store\<close>

record LibraryDatabase =
  users :: "(string \<times> LibraryUser) list"
  items :: "(string \<times> LibraryItem) list"

definition empty_database :: LibraryDatabase where
  "empty_database = \<lparr>users = [], items = []\<rparr>"

subsection \<open>The engine: \<^verbatim>\<open>LibrarySystem\<close>\<close>

definition add_user ::
  "LibraryDatabase \<Rightarrow> string \<Rightarrow> string \<Rightarrow> string \<Rightarrow> string \<Rightarrow> UserRole
     \<Rightarrow> LibraryUser \<times> LibraryDatabase" where
  "add_user db uuid nm em ph r =
     (let user = LibraryUser_init uuid nm em ph r
      in (user, db\<lparr>users := AList.update (u_id user) user (users db)\<rparr>))"

definition add_item :: "LibraryDatabase \<Rightarrow> LibraryItem \<Rightarrow> LibraryDatabase" where
  "add_item db item = db\<lparr>items := AList.update (i_id item) item (items db)\<rparr>"

definition check_out_item ::
  "LibraryDatabase \<Rightarrow> string \<Rightarrow> string \<Rightarrow> datetime \<Rightarrow> exn + LibraryDatabase" where
  "check_out_item db user_id item_id now =
     (case map_of (users db) user_id of
        None \<Rightarrow> Inl (UserNotFoundException (''User '' @ user_id @ '' not found''))
      | Some user \<Rightarrow>
         (case map_of (items db) item_id of
            None \<Rightarrow> Inl (LibraryException (''Item '' @ item_id @ '' not found''))
          | Some item \<Rightarrow>
              if status item \<noteq> AVAILABLE
              then Inl (ItemNotAvailableException
                          (''Item '' @ title item @ '' is not available''))
              else Inr (db\<lparr>
                users := AList.update user_id
                  (user\<lparr>borrowed_items := borrowed_items user @ [i_id item]\<rparr>) (users db),
                items := AList.update item_id
                  (item\<lparr>status := CHECKED_OUT,
                        checked_out_to := Some (u_id user),
                        due_date := Some (now + get_checkout_duration item)\<rparr>)
                  (items db)\<rparr>)))"

text \<open>
  The borrower's side of \<^verbatim>\<open>return_item\<close> (lines 326 to 335): the store's users after
  it, or the \<^verbatim>\<open>ValueError\<close> of \<^verbatim>\<open>list.remove\<close>. \<open>now1\<close> is the clock read of the
  comparison with the due date, \<open>now2\<close> the one of the subtraction.
\<close>

definition charge_late_fee ::
  "LibraryItem \<Rightarrow> datetime \<Rightarrow> datetime \<Rightarrow> LibraryUser \<Rightarrow> LibraryUser" where
  \<comment> \<open>lines 331 to 334\<close>
  "charge_late_fee item now1 now2 user =
     (case due_date item of
        None \<Rightarrow> user
      | Some due \<Rightarrow>
          if now1 > due
          then user\<lparr>fines := fines user
                  + of_int (days (now2 - due)) * get_daily_fine item\<rparr>
          else user)"

definition settle_borrower ::
  "LibraryDatabase \<Rightarrow> LibraryItem \<Rightarrow> datetime \<Rightarrow> datetime
     \<Rightarrow> exn + (string \<times> LibraryUser) list" where
  "settle_borrower db item now1 now2 =
     (case checked_out_to item of
        None \<Rightarrow> Inr (users db)
      | Some borrower \<Rightarrow>
         (case map_of (users db) borrower of
            None \<Rightarrow> Inr (users db)
          | Some user \<Rightarrow>
              if i_id item \<notin> set (borrowed_items user)
              then Inl (ValueError ''list.remove(x): x not in list'')
              else Inr (AList.update borrower
                     (charge_late_fee item now1 now2
                        (user\<lparr>borrowed_items := remove1 (i_id item) (borrowed_items user)\<rparr>))
                     (users db))))"

definition release_item :: "LibraryItem \<Rightarrow> LibraryItem" where
  \<comment> \<open>lines 337 to 345: the item's side of \<^verbatim>\<open>return_item\<close>\<close>
  "release_item item =
     (let item1 = item\<lparr>status := AVAILABLE, checked_out_to := None, due_date := None\<rparr>
      in case reserved_by item1 of
           [] \<Rightarrow> item1
         | next_user_id # rest \<Rightarrow> item1\<lparr>reserved_by := rest, status := RESERVED\<rparr>)"

definition return_item ::
  "LibraryDatabase \<Rightarrow> string \<Rightarrow> datetime \<Rightarrow> datetime \<Rightarrow> exn + LibraryDatabase" where
  "return_item db item_id now1 now2 =
     (case map_of (items db) item_id of
        None \<Rightarrow> Inl (LibraryException (''Item '' @ item_id @ '' not found''))
      | Some item \<Rightarrow>
          if status item \<noteq> CHECKED_OUT
          then Inl (LibraryException (''Item '' @ title item @ '' is not checked out''))
          else
            (case settle_borrower db item now1 now2 of
               Inl e \<Rightarrow> Inl e
             | Inr users' \<Rightarrow>
                 Inr (db\<lparr>users := users',
                         items := AList.update item_id (release_item item) (items db)\<rparr>)))"

definition reserve_item ::
  "LibraryDatabase \<Rightarrow> string \<Rightarrow> string \<Rightarrow> exn + LibraryDatabase" where
  "reserve_item db user_id item_id =
     (case map_of (users db) user_id of
        None \<Rightarrow> Inl (UserNotFoundException (''User '' @ user_id @ '' not found''))
      | Some user \<Rightarrow>
         (case map_of (items db) item_id of
            None \<Rightarrow> Inl (LibraryException (''Item '' @ item_id @ '' not found''))
          | Some item \<Rightarrow>
              if user_id \<in> set (reserved_by item)
              then Inl (LibraryException ''User has already reserved this item'')
              else Inr (db\<lparr>
                users := AList.update user_id
                  (user\<lparr>reserved_items := reserved_items user @ [item_id]\<rparr>) (users db),
                items := AList.update item_id
                  (item\<lparr>reserved_by := reserved_by item @ [user_id]\<rparr>) (items db)\<rparr>)))"

definition pay_fines ::
  "LibraryDatabase \<Rightarrow> string \<Rightarrow> rat \<Rightarrow> exn + LibraryDatabase" where
  "pay_fines db user_id amount =
     (case map_of (users db) user_id of
        None \<Rightarrow> Inl (UserNotFoundException (''User '' @ user_id @ '' not found''))
      | Some user \<Rightarrow>
          if amount > fines user
          then Inl (LibraryException ''Payment amount exceeds outstanding fines'')
          else Inr (db\<lparr>users :=
                 AList.update user_id (user\<lparr>fines := fines user - amount\<rparr>) (users db)\<rparr>))"

subsection \<open>Runs of the engine\<close>

text \<open>
  A caller drives the engine through its six mutating operations. \<open>perform\<close> is the
  dispatch; \<open>add_user\<close> and \<open>add_item\<close> cannot fail.
\<close>

datatype operation =
    AddUser string string string string UserRole
  | AddItem LibraryItem
  | CheckOut string string datetime
  | Return string datetime datetime
  | Reserve string string
  | PayFines string rat

fun perform :: "operation \<Rightarrow> LibraryDatabase \<Rightarrow> exn + LibraryDatabase" where
  "perform (AddUser uuid nm em ph r) db = Inr (snd (add_user db uuid nm em ph r))"
| "perform (AddItem item) db = Inr (add_item db item)"
| "perform (CheckOut user_id item_id now) db = check_out_item db user_id item_id now"
| "perform (Return item_id now1 now2) db = return_item db item_id now1 now2"
| "perform (Reserve user_id item_id) db = reserve_item db user_id item_id"
| "perform (PayFines user_id amount) db = pay_fines db user_id amount"

text \<open>
  What the constructors guarantee about the arguments of \<open>add_user\<close> and \<open>add_item\<close>:
  \<^verbatim>\<open>uuid4\<close> gives an id that no entity of the store has, and an item handed to
  \<^verbatim>\<open>add_item\<close> is as its constructor left it (entities are mutated through the engine
  only).
\<close>

definition constructed :: "LibraryItem \<Rightarrow> bool" where
  "constructed item =
     (item = LibraryItem_init (i_id item) (title item) (location item) (cost item) (kind item))"

fun admissible :: "operation \<Rightarrow> LibraryDatabase \<Rightarrow> bool" where
  "admissible (AddUser uuid nm em ph r) db = (uuid \<notin> set (map fst (users db)))"
| "admissible (AddItem item) db =
     (i_id item \<notin> set (map fst (items db)) \<and> constructed item)"
| "admissible (CheckOut user_id item_id now) db = True"
| "admissible (Return item_id now1 now2) db = True"
| "admissible (Reserve user_id item_id) db = True"
| "admissible (PayFines user_id amount) db = True"

text \<open>
  A run performs the operations in turn. An operation that raises leaves the store
  unchanged and the caller goes on. \<open>None\<close> marks a list of operations that is not a
  run of the program (an id generated twice, an item not fresh from its constructor).
\<close>

definition step :: "operation \<Rightarrow> LibraryDatabase \<Rightarrow> LibraryDatabase" where
  "step oper db = (case perform oper db of Inl e \<Rightarrow> db | Inr db' \<Rightarrow> db')"

fun run :: "operation list \<Rightarrow> LibraryDatabase \<Rightarrow> LibraryDatabase option" where
  "run [] db = Some db"
| "run (oper # opers) db = (if admissible oper db then run opers (step oper db) else None)"


subsection \<open>Invariants of the store\<close>

definition keys_ok :: "LibraryDatabase \<Rightarrow> bool" where
  \<comment> \<open>a dict has each key once, and every entity is stored under its own id\<close>
  "keys_ok db =
     (distinct (map fst (users db)) \<and> distinct (map fst (items db)) \<and>
      list_all (\<lambda>(k, u). u_id u = k) (users db) \<and>
      list_all (\<lambda>(k, it). i_id it = k) (items db))"






text \<open>The two-way mirror between the users' lists and the items' references.\<close>

definition mirrored :: "LibraryUser \<Rightarrow> LibraryItem \<Rightarrow> bool" where
  "mirrored user item =
     (((i_id item \<in> set (borrowed_items user)) = (checked_out_to item = Some (u_id user))) \<and>
      ((i_id item \<in> set (reserved_items user)) = (u_id user \<in> set (reserved_by item))))"

definition mirror_inv :: "LibraryDatabase \<Rightarrow> bool" where
  "mirror_inv db =
     list_all (\<lambda>(ku, user). list_all (\<lambda>(ki, item). mirrored user item) (items db)) (users db)"





subsection \<open>Persistence: \<^verbatim>\<open>to_dict\<close>, \<^verbatim>\<open>save_data\<close> and \<^verbatim>\<open>load_data\<close>\<close>

text \<open>
  The data file holds one JSON document. \<^verbatim>\<open>json.dump\<close> followed by \<^verbatim>\<open>json.load\<close> gives
  back the document it was given (strings, integers, finite floats, \<^verbatim>\<open>null\<close>, lists and
  dicts with string keys), so the file is modelled by its document: \<open>None\<close> is a missing
  file. A Python dict is an association list, as for the store.
\<close>

datatype json =
    JNull
  | JBool bool
  | JInt int
  | JFloat rat
  | JStr string
  | JList "json list"
  | JDict "(string \<times> json) list"

definition bind_exn :: "exn + 'a \<Rightarrow> ('a \<Rightarrow> exn + 'b) \<Rightarrow> exn + 'b" where
  \<comment> \<open>sequencing: an exception ends the evaluation\<close>
  "bind_exn m f = (case m of Inl e \<Rightarrow> Inl e | Inr x \<Rightarrow> f x)"

definition dict_update :: "(string \<times> json) list \<Rightarrow> (string \<times> json) list \<Rightarrow> (string \<times> json) list" where
  \<comment> \<open>\<^verbatim>\<open>d.update(e)\<close>\<close>
  "dict_update d e = fold (\<lambda>(k, v). AList.update k v) e d"

fun role_value :: "UserRole \<Rightarrow> string" where
  "role_value STUDENT = ''student''"
| "role_value FACULTY = ''faculty''"
| "role_value LIBRARIAN = ''librarian''"
| "role_value ADMIN = ''admin''"

fun status_value :: "ItemStatus \<Rightarrow> string" where
  "status_value AVAILABLE = ''available''"
| "status_value CHECKED_OUT = ''checked_out''"
| "status_value RESERVED = ''reserved''"
| "status_value MAINTENANCE = ''maintenance''"
| "status_value LOST = ''lost''"

definition UserRole_of_value :: "string \<Rightarrow> exn + UserRole" where
  \<comment> \<open>\<^verbatim>\<open>UserRole(v)\<close>\<close>
  "UserRole_of_value v =
     (if v = ''student'' then Inr STUDENT
      else if v = ''faculty'' then Inr FACULTY
      else if v = ''librarian'' then Inr LIBRARIAN
      else if v = ''admin'' then Inr ADMIN
      else Inl (ValueError (v @ '' is not a valid UserRole'')))"

definition ItemStatus_of_value :: "string \<Rightarrow> exn + ItemStatus" where
  \<comment> \<open>\<^verbatim>\<open>ItemStatus(v)\<close>\<close>
  "ItemStatus_of_value v =
     (if v = ''available'' then Inr AVAILABLE
      else if v = ''checked_out'' then Inr CHECKED_OUT
      else if v = ''reserved'' then Inr RESERVED
      else if v = ''maintenance'' then Inr MAINTENANCE
      else if v = ''lost'' then Inr LOST
      else Inl (ValueError (v @ '' is not a valid ItemStatus'')))"

fun class_name :: "ItemKind \<Rightarrow> string" where
  \<comment> \<open>\<^verbatim>\<open>self.__class__.__name__\<close>\<close>
  "class_name (Book a i p y e) = ''Book''"
| "class_name (DVD d r y) = ''DVD''"
| "class_name (Magazine p n d) = ''Magazine''"

definition json_opt_str :: "string option \<Rightarrow> json" where
  "json_opt_str v = (case v of None \<Rightarrow> JNull | Some s \<Rightarrow> JStr s)"

definition Person_to_dict :: "LibraryUser \<Rightarrow> (string \<times> json) list" where
  "Person_to_dict u =
     [(''id'', JStr (u_id u)), (''name'', JStr (name u)), (''email'', JStr (email u)),
      (''phone'', JStr (phone u))]"

definition LibraryUser_to_dict :: "LibraryUser \<Rightarrow> (string \<times> json) list" where
  "LibraryUser_to_dict u =
     dict_update (Person_to_dict u)
       [(''role'', JStr (role_value (role u))),
        (''borrowed_items'', JList (map JStr (borrowed_items u))),
        (''reserved_items'', JList (map JStr (reserved_items u))),
        (''fines'', JFloat (fines u))]"

text \<open>
  \<^verbatim>\<open>datetime.isoformat\<close> and \<^verbatim>\<open>datetime.fromisoformat\<close> belong to the standard library.
  They are parameters of the persistence functions, \<open>isoformat\<close> of type
  \<open>datetime \<Rightarrow> string\<close> and \<open>fromisoformat\<close> of type \<open>string \<Rightarrow> exn + datetime\<close>.
\<close>

definition LibraryItem_to_dict ::
  "(datetime \<Rightarrow> string) \<Rightarrow> LibraryItem \<Rightarrow> (string \<times> json) list" where
  \<comment> \<open>\<^verbatim>\<open>LibraryItem.to_dict\<close>, the method of the base class\<close>
  "LibraryItem_to_dict isoformat it =
     [(''id'', JStr (i_id it)), (''title'', JStr (title it)),
      (''location'', JStr (location it)), (''cost'', JFloat (cost it)),
      (''status'', JStr (status_value (status it))),
      (''checked_out_to'', json_opt_str (checked_out_to it)),
      (''due_date'', (case due_date it of None \<Rightarrow> JNull | Some d \<Rightarrow> JStr (isoformat d))),
      (''reserved_by'', JList (map JStr (reserved_by it))),
      (''type'', JStr (class_name (kind it)))]"

definition to_dict :: "(datetime \<Rightarrow> string) \<Rightarrow> LibraryItem \<Rightarrow> (string \<times> json) list" where
  \<comment> \<open>the overriding \<^verbatim>\<open>to_dict\<close> of \<^verbatim>\<open>Book\<close>, \<^verbatim>\<open>DVD\<close> and \<^verbatim>\<open>Magazine\<close>\<close>
  "to_dict isoformat it =
     dict_update (LibraryItem_to_dict isoformat it)
       (case kind it of
          Book author isbn publisher publication_year edition \<Rightarrow>
            [(''author'', JStr author), (''isbn'', JStr isbn), (''publisher'', JStr publisher),
             (''publication_year'', JInt publication_year), (''edition'', JStr edition)]
        | DVD director runtime release_year \<Rightarrow>
            [(''director'', JStr director), (''runtime'', JInt runtime),
             (''release_year'', JInt release_year)]
        | Magazine publisher issue_number publication_date \<Rightarrow>
            [(''publisher'', JStr publisher), (''issue_number'', JStr issue_number),
             (''publication_date'', JStr (isoformat publication_date))])"

definition save_data :: "(datetime \<Rightarrow> string) \<Rightarrow> LibraryDatabase \<Rightarrow> json" where
  \<comment> \<open>the document written to the file\<close>
  "save_data isoformat db =
     JDict [(''users'', JList (map (\<lambda>(k, user). JDict (LibraryUser_to_dict user)) (users db))),
            (''items'', JList (map (\<lambda>(k, item). JDict (to_dict isoformat item)) (items db)))]"

text \<open>
  Reading a loaded document. Python stores whatever value the document holds; the
  records of the model are typed, so a value of another JSON type than the field's
  annotation is reported as \<open>TypeError\<close> and what Python would do with it later is not
  modelled. An integer is accepted where a float is annotated. \<open>save_data\<close> never
  writes such a document.
\<close>

definition getitem :: "(string \<times> json) list \<Rightarrow> string \<Rightarrow> exn + json" where
  \<comment> \<open>\<^verbatim>\<open>d[k]\<close>\<close>
  "getitem d k = (case map_of d k of None \<Rightarrow> Inl (KeyError k) | Some v \<Rightarrow> Inr v)"

fun as_str :: "json \<Rightarrow> exn + string" where
  "as_str (JStr s) = Inr s"
| "as_str v = Inl (TypeError ''str expected'')"

fun as_int :: "json \<Rightarrow> exn + int" where
  "as_int (JInt n) = Inr n"
| "as_int v = Inl (TypeError ''int expected'')"

fun as_float :: "json \<Rightarrow> exn + rat" where
  "as_float (JFloat x) = Inr x"
| "as_float (JInt n) = Inr (of_int n)"
| "as_float v = Inl (TypeError ''float expected'')"

fun as_opt_str :: "json \<Rightarrow> exn + string option" where
  "as_opt_str JNull = Inr None"
| "as_opt_str (JStr s) = Inr (Some s)"
| "as_opt_str v = Inl (TypeError ''str or None expected'')"

fun strs :: "json list \<Rightarrow> exn + string list" where
  "strs [] = Inr []"
| "strs (v # vs) = bind_exn (as_str v) (\<lambda>s. bind_exn (strs vs) (\<lambda>ss. Inr (s # ss)))"

fun as_str_list :: "json \<Rightarrow> exn + string list" where
  "as_str_list (JList vs) = strs vs"
| "as_str_list v = Inl (TypeError ''list expected'')"

fun as_list :: "json \<Rightarrow> exn + json list" where
  "as_list (JList vs) = Inr vs"
| "as_list v = Inl (TypeError ''list expected'')"

fun truthy :: "json \<Rightarrow> bool" where
  \<comment> \<open>the truth value Python gives a loaded value\<close>
  "truthy JNull = False"
| "truthy (JBool b) = b"
| "truthy (JInt n) = (n \<noteq> 0)"
| "truthy (JFloat x) = (x \<noteq> 0)"
| "truthy (JStr s) = (s \<noteq> [])"
| "truthy (JList vs) = (vs \<noteq> [])"
| "truthy (JDict d) = (d \<noteq> [])"

definition parse_datetime :: "(string \<Rightarrow> exn + datetime) \<Rightarrow> json \<Rightarrow> exn + datetime" where
  \<comment> \<open>\<^verbatim>\<open>datetime.fromisoformat(v)\<close>\<close>
  "parse_datetime fromisoformat v =
     (case v of
        JStr s \<Rightarrow> fromisoformat s
      | _ \<Rightarrow> Inl (TypeError ''fromisoformat: argument must be str''))"

definition load_due_date ::
  "(string \<Rightarrow> exn + datetime) \<Rightarrow> json \<Rightarrow> exn + datetime option" where
  \<comment> \<open>line 260: \<^verbatim>\<open>datetime.fromisoformat(v) if v else None\<close>\<close>
  "load_due_date fromisoformat v =
     (if truthy v then bind_exn (parse_datetime fromisoformat v) (\<lambda>d. Inr (Some d))
      else Inr None)"

definition load_user :: "json \<Rightarrow> exn + LibraryUser" where
  \<comment> \<open>lines 212 to 221; the id made by the constructor is overwritten at line 218\<close>
  "load_user user_data =
     (case user_data of
        JDict d \<Rightarrow>
          bind_exn (bind_exn (getitem d ''name'') as_str) (\<lambda>nm.
          bind_exn (bind_exn (getitem d ''email'') as_str) (\<lambda>em.
          bind_exn (bind_exn (getitem d ''phone'') as_str) (\<lambda>ph.
          bind_exn (bind_exn (bind_exn (getitem d ''role'') as_str) UserRole_of_value) (\<lambda>r.
          bind_exn (bind_exn (getitem d ''id'') as_str) (\<lambda>i.
          bind_exn (bind_exn (getitem d ''borrowed_items'') as_str_list) (\<lambda>b.
          bind_exn (bind_exn (getitem d ''reserved_items'') as_str_list) (\<lambda>rs.
          bind_exn (bind_exn (getitem d ''fines'') as_float) (\<lambda>f.
            Inr ((LibraryUser_init i nm em ph r)
                   \<lparr>borrowed_items := b, reserved_items := rs, fines := f\<rparr>)))))))))
      | _ \<Rightarrow> Inl (TypeError ''dict expected''))"

text \<open>
  Lines 227 to 255: the constructor call chosen by the \<^verbatim>\<open>type\<close> field, giving the title,
  the location, the cost and the fields of the subclass. With another \<^verbatim>\<open>type\<close> no
  branch assigns \<^verbatim>\<open>item\<close>: Python raises \<^verbatim>\<open>UnboundLocalError\<close> at the first record, and
  at a later record goes on with the object of the record before. The model reports
  \<open>UnboundLocalError\<close> in both cases.
\<close>

definition load_kind ::
  "(string \<Rightarrow> exn + datetime) \<Rightarrow> (string \<times> json) list
     \<Rightarrow> exn + (string \<times> string \<times> rat \<times> ItemKind)" where
  "load_kind fromisoformat d =
     bind_exn (getitem d ''type'') (\<lambda>t.
       if t = JStr ''Book'' then
         bind_exn (bind_exn (getitem d ''title'') as_str) (\<lambda>tt.
         bind_exn (bind_exn (getitem d ''author'') as_str) (\<lambda>author.
         bind_exn (bind_exn (getitem d ''isbn'') as_str) (\<lambda>isbn.
         bind_exn (bind_exn (getitem d ''location'') as_str) (\<lambda>loc.
         bind_exn (bind_exn (getitem d ''cost'') as_float) (\<lambda>c.
         bind_exn (bind_exn (getitem d ''publisher'') as_str) (\<lambda>publisher.
         bind_exn (bind_exn (getitem d ''publication_year'') as_int) (\<lambda>publication_year.
         bind_exn (bind_exn (getitem d ''edition'') as_str) (\<lambda>edition.
           Inr (tt, loc, c, Book author isbn publisher publication_year edition)))))))))
       else if t = JStr ''DVD'' then
         bind_exn (bind_exn (getitem d ''title'') as_str) (\<lambda>tt.
         bind_exn (bind_exn (getitem d ''director'') as_str) (\<lambda>director.
         bind_exn (bind_exn (getitem d ''location'') as_str) (\<lambda>loc.
         bind_exn (bind_exn (getitem d ''cost'') as_float) (\<lambda>c.
         bind_exn (bind_exn (getitem d ''runtime'') as_int) (\<lambda>runtime.
         bind_exn (bind_exn (getitem d ''release_year'') as_int) (\<lambda>release_year.
           Inr (tt, loc, c, DVD director runtime release_year)))))))
       else if t = JStr ''Magazine'' then
         bind_exn (bind_exn (getitem d ''title'') as_str) (\<lambda>tt.
         bind_exn (bind_exn (getitem d ''publisher'') as_str) (\<lambda>publisher.
         bind_exn (bind_exn (getitem d ''location'') as_str) (\<lambda>loc.
         bind_exn (bind_exn (getitem d ''cost'') as_float) (\<lambda>c.
         bind_exn (bind_exn (getitem d ''issue_number'') as_str) (\<lambda>issue_number.
         bind_exn (bind_exn (getitem d ''publication_date'') (parse_datetime fromisoformat))
           (\<lambda>publication_date.
           Inr (tt, loc, c, Magazine publisher issue_number publication_date)))))))
       else Inl (UnboundLocalError ''item''))"

definition load_item :: "(string \<Rightarrow> exn + datetime) \<Rightarrow> json \<Rightarrow> exn + LibraryItem" where
  \<comment> \<open>lines 226 to 261\<close>
  "load_item fromisoformat item_data =
     (case item_data of
        JDict d \<Rightarrow>
          bind_exn (load_kind fromisoformat d) (\<lambda>(tt, loc, c, k).
          bind_exn (bind_exn (getitem d ''id'') as_str) (\<lambda>i.
          bind_exn (bind_exn (bind_exn (getitem d ''status'') as_str) ItemStatus_of_value) (\<lambda>st.
          bind_exn (bind_exn (getitem d ''checked_out_to'') as_opt_str) (\<lambda>co.
          bind_exn (bind_exn (getitem d ''due_date'') (load_due_date fromisoformat)) (\<lambda>dd.
          bind_exn (bind_exn (getitem d ''reserved_by'') as_str_list) (\<lambda>rb.
            Inr ((LibraryItem_init i tt loc c k)
                   \<lparr>status := st, checked_out_to := co, due_date := dd,
                     reserved_by := rb\<rparr>)))))))
      | _ \<Rightarrow> Inl (TypeError ''dict expected''))"

fun load_users ::
  "json list \<Rightarrow> (string \<times> LibraryUser) list \<Rightarrow> exn + (string \<times> LibraryUser) list" where
  "load_users [] acc = Inr acc"
| "load_users (user_data # rest) acc =
     bind_exn (load_user user_data) (\<lambda>user. load_users rest (AList.update (u_id user) user acc))"

fun load_items ::
  "(string \<Rightarrow> exn + datetime) \<Rightarrow> json list \<Rightarrow> (string \<times> LibraryItem) list
     \<Rightarrow> exn + (string \<times> LibraryItem) list" where
  "load_items fromisoformat [] acc = Inr acc"
| "load_items fromisoformat (item_data # rest) acc =
     bind_exn (load_item fromisoformat item_data)
       (\<lambda>item. load_items fromisoformat rest (AList.update (i_id item) item acc))"

definition get_default :: "(string \<times> json) list \<Rightarrow> string \<Rightarrow> json \<Rightarrow> json" where
  \<comment> \<open>\<^verbatim>\<open>d.get(k, default)\<close>\<close>
  "get_default d k dflt = (case map_of d k of None \<Rightarrow> dflt | Some v \<Rightarrow> v)"

definition load_data ::
  "(datetime \<Rightarrow> string) \<Rightarrow> (string \<Rightarrow> exn + datetime) \<Rightarrow> json option
     \<Rightarrow> exn + (LibraryDatabase \<times> json option)" where
  \<comment> \<open>the store after \<^verbatim>\<open>LibraryDatabase.__init__\<close>, with the file as it leaves it\<close>
  "load_data isoformat fromisoformat file =
     (case file of
        None \<Rightarrow> Inr (empty_database, Some (save_data isoformat empty_database))
      | Some doc \<Rightarrow>
         (case doc of
            JDict data \<Rightarrow>
              bind_exn (as_list (get_default data ''users'' (JList []))) (\<lambda>us.
              bind_exn (load_users us []) (\<lambda>users'.
              bind_exn (as_list (get_default data ''items'' (JList []))) (\<lambda>its.
              bind_exn (load_items fromisoformat its []) (\<lambda>items'.
                Inr (\<lparr>users = users', items = items'\<rparr>, file)))))
          | _ \<Rightarrow> Inl (TypeError ''dict expected'')))"

text \<open>
  What the persistence functions need of the standard library's pair: parsing gives back
  the formatted time, and no time is formatted as the empty string (line 260 tests the
  truth value of the string).
\<close>

definition codec_ok :: "(datetime \<Rightarrow> string) \<Rightarrow> (string \<Rightarrow> exn + datetime) \<Rightarrow> bool" where
  "codec_ok isoformat fromisoformat =
     (\<forall>d. fromisoformat (isoformat d) = Inr d \<and> isoformat d \<noteq> [])"

text \<open>
  A small pair with this property, to instantiate the parameters on examples: a sign
  followed by as many strokes as the time counts.
\<close>

definition tally_isoformat :: "datetime \<Rightarrow> string" where
  "tally_isoformat d = (if d < 0 then CHR ''-'' else CHR ''+'') # replicate (nat \<bar>d\<bar>) CHR ''I''"

definition tally_fromisoformat :: "string \<Rightarrow> exn + datetime" where
  "tally_fromisoformat s =
     (case s of
        [] \<Rightarrow> Inl (ValueError ''Invalid isoformat string'')
      | c # r \<Rightarrow> Inr ((if c = CHR ''-'' then - 1 else 1) * int (length r)))"

subsection \<open>An example run\<close>

text \<open>
  Two users and a book; Bob checks the book out at time \<open>0\<close> and Ann reserves it.
\<close>

definition demo_book :: LibraryItem where
  "demo_book = Book_init ''i1'' ''Emma'' ''Austen'' ''isbn-1'' ''A1'' 10 ''Murray'' 1815 ''first''"

definition demo_ops :: "operation list" where
  "demo_ops =
     [AddUser ''u1'' ''Ann'' ''ann@example.org'' ''555-0101'' STUDENT,
      AddUser ''u2'' ''Bob'' ''bob@example.org'' ''555-0102'' FACULTY,
      AddItem demo_book,
      CheckOut ''u2'' ''i1'' 0,
      Reserve ''u1'' ''i1'']"

definition demo_ann :: LibraryUser where
  "demo_ann = \<lparr>u_id = ''u1'', name = ''Ann'', email = ''ann@example.org'', phone = ''555-0101'',
               role = STUDENT, borrowed_items = [], reserved_items = [''i1''], fines = 0\<rparr>"

definition demo_bob :: LibraryUser where
  "demo_bob = \<lparr>u_id = ''u2'', name = ''Bob'', email = ''bob@example.org'', phone = ''555-0102'',
               role = FACULTY, borrowed_items = [''i1''], reserved_items = [], fines = 0\<rparr>"

definition demo_item :: LibraryItem where
  "demo_item = \<lparr>i_id = ''i1'', title = ''Emma'', location = ''A1'', cost = 10,
                status = CHECKED_OUT, checked_out_to = Some ''u2'',
                due_date = Some 1814400000000, reserved_by = [''u1''],
                kind = Book ''Austen'' ''isbn-1'' ''Murray'' 1815 ''first''\<rparr>"

definition demo_db :: LibraryDatabase where
  "demo_db = \<lparr>users = [(''u1'', demo_ann), (''u2'', demo_bob)], items = [(''i1'', demo_item)]\<rparr>"

text \<open>The same store after the book came back 25 days after the checkout.\<close>

definition demo_returned :: LibraryDatabase where
  "demo_returned =
     \<lparr>users = [(''u1'', demo_ann), (''u2'', demo_bob\<lparr>borrowed_items := [], fines := 2\<rparr>)],
      items = [(''i1'', demo_item\<lparr>status := RESERVED, checked_out_to := None,
                                   due_date := None, reserved_by := []\<rparr>)]\<rparr>"


section \<open>Properties\<close>

subsection \<open>The invariants hold in every reachable store\<close>































lemma strs_JStr: "strs (map JStr xs) = Inr xs"
  by (induction xs) (simp_all add: bind_exn_def)

lemma UserRole_roundtrip: "UserRole_of_value (role_value r) = Inr r"
  by (cases r) (simp_all add: UserRole_of_value_def)

lemma ItemStatus_roundtrip: "ItemStatus_of_value (status_value s) = Inr s"
  by (cases s) (simp_all add: ItemStatus_of_value_def)

lemma load_user_to_dict: "load_user (JDict (LibraryUser_to_dict u)) = Inr u"
  by (simp add: load_user_def LibraryUser_to_dict_def Person_to_dict_def dict_update_def
        getitem_def bind_exn_def strs_JStr UserRole_roundtrip LibraryUser_init_def)

lemma load_due_date_roundtrip:
  assumes "codec_ok isoformat fromisoformat"
  shows "load_due_date fromisoformat (case dd of None \<Rightarrow> JNull | Some d \<Rightarrow> JStr (isoformat d))
           = Inr dd"
  using assms
  by (cases dd) (simp_all add: load_due_date_def parse_datetime_def bind_exn_def codec_ok_def)

lemma load_kind_to_dict:
  assumes "codec_ok isoformat fromisoformat"
  shows "load_kind fromisoformat (to_dict isoformat it) =
           Inr (title it, location it, cost it, kind it)"
  using assms
  by (cases "kind it")
     (simp_all add: load_kind_def to_dict_def LibraryItem_to_dict_def dict_update_def
        getitem_def bind_exn_def parse_datetime_def codec_ok_def)

lemma load_item_to_dict:
  assumes c: "codec_ok isoformat fromisoformat"
  shows "load_item fromisoformat (JDict (to_dict isoformat it)) = Inr it"
proof -
  have base: "getitem (to_dict isoformat it) ''id'' = Inr (JStr (i_id it))"
    "getitem (to_dict isoformat it) ''status'' = Inr (JStr (status_value (status it)))"
    "getitem (to_dict isoformat it) ''checked_out_to'' = Inr (json_opt_str (checked_out_to it))"
    "getitem (to_dict isoformat it) ''due_date'' =
       Inr (case due_date it of None \<Rightarrow> JNull | Some d \<Rightarrow> JStr (isoformat d))"
    "getitem (to_dict isoformat it) ''reserved_by'' = Inr (JList (map JStr (reserved_by it)))"
    by (cases "kind it";
        simp add: to_dict_def LibraryItem_to_dict_def dict_update_def getitem_def)+
  have o: "as_opt_str (json_opt_str (checked_out_to it)) = Inr (checked_out_to it)"
    by (cases "checked_out_to it") (simp_all add: json_opt_str_def)
  show ?thesis
    by (simp add: load_item_def load_kind_to_dict [OF c] base bind_exn_def
          ItemStatus_roundtrip o load_due_date_roundtrip [OF c] strs_JStr LibraryItem_init_def)
qed

lemma update_fresh: "k \<notin> fst ` set al \<Longrightarrow> AList.update k v al = al @ [(k, v)]"
  by (induction al) auto

lemma load_users_saved:
  assumes "distinct (map fst (acc @ al))" "list_all (\<lambda>(k, u). u_id u = k) al"
  shows "load_users (map (\<lambda>(k, user). JDict (LibraryUser_to_dict user)) al) acc = Inr (acc @ al)"
  using assms
proof (induction al arbitrary: acc)
  case Nil
  then show ?case by simp
next
  case (Cons p al)
  obtain k u where p: "p = (k, u)" by (cases p)
  from Cons.prems p have ku: "u_id u = k" and fresh: "k \<notin> fst ` set acc"
    and d: "distinct (map fst ((acc @ [(k, u)]) @ al))"
    and rest: "list_all (\<lambda>(k, u). u_id u = k) al"
    by auto
  have "load_users (map (\<lambda>(k, user). JDict (LibraryUser_to_dict user)) al) (acc @ [(k, u)])
          = Inr ((acc @ [(k, u)]) @ al)"
    using d rest by (rule Cons.IH)
  then show ?case
    by (simp add: p load_user_to_dict bind_exn_def ku update_fresh [OF fresh])
qed

lemma load_items_saved:
  assumes c: "codec_ok isoformat fromisoformat"
    and "distinct (map fst (acc @ al))" "list_all (\<lambda>(k, it). i_id it = k) al"
  shows "load_items fromisoformat (map (\<lambda>(k, item). JDict (to_dict isoformat item)) al) acc
           = Inr (acc @ al)"
  using assms(2,3)
proof (induction al arbitrary: acc)
  case Nil
  then show ?case by simp
next
  case (Cons p al)
  obtain k it where p: "p = (k, it)" by (cases p)
  from Cons.prems p have ki: "i_id it = k" and fresh: "k \<notin> fst ` set acc"
    and d: "distinct (map fst ((acc @ [(k, it)]) @ al))"
    and rest: "list_all (\<lambda>(k, it). i_id it = k) al"
    by auto
  have "load_items fromisoformat (map (\<lambda>(k, item). JDict (to_dict isoformat item)) al)
          (acc @ [(k, it)]) = Inr ((acc @ [(k, it)]) @ al)"
    using d rest by (rule Cons.IH)
  then show ?case
    by (simp add: p load_item_to_dict [OF c] bind_exn_def ki update_fresh [OF fresh])
qed


subsection \<open>The example run\<close>

lemmas demo_defs = demo_ops_def demo_db_def demo_ann_def demo_bob_def demo_item_def
  demo_book_def demo_returned_def

lemma run_demo: "run demo_ops empty_database = Some demo_db"
  by (simp add: demo_defs empty_database_def step_def add_user_def add_item_def
        LibraryUser_init_def LibraryItem_init_def Book_init_def constructed_def Let_def
        check_out_item_def reserve_item_def timedelta_days_def)


lemma return_demo:
  "return_item demo_db ''i1'' (timedelta_days 25) (timedelta_days 25) = Inr demo_returned"
  by (simp add: demo_defs return_item_def settle_borrower_def charge_late_fee_def
        release_item_def timedelta_days_def days_def)


subsection \<open>Returning an item\<close>






subsection \<open>Checking out, reserving and paying\<close>









subsection \<open>The status invariant\<close>







subsection \<open>Failures\<close>






subsection \<open>The mirror between users and items\<close>

text \<open>
  Claim C2 says that every operation keeps the users' lists and the items' references
  in step. \<open>return_item\<close> does not: it pops the front of \<open>reserved_by\<close> (line 343) and
  leaves the item's id in that user's \<open>reserved_items\<close>, whereas \<open>reserve_item\<close> writes
  both sides and \<open>return_item\<close> itself clears both sides of the loan. In the example run
  the mirror holds before the return and is broken after it: Ann still lists the book
  as reserved and the book's queue is empty.
\<close>

theorem return_item_breaks_mirror:
  "run demo_ops empty_database = Some demo_db \<and> mirror_inv demo_db \<and>
   return_item demo_db ''i1'' (timedelta_days 25) (timedelta_days 25) = Inr demo_returned \<and>
   map_option reserved_items (map_of (users demo_returned) ''u1'') = Some [''i1''] \<and>
   map_option reserved_by (map_of (items demo_returned) ''i1'') = Some [] \<and>
   \<not> mirror_inv demo_returned"
proof -
  have "mirror_inv demo_db"
    by (simp add: mirror_inv_def mirrored_def demo_defs)
  moreover have "\<not> mirror_inv demo_returned"
    by (simp add: mirror_inv_def mirrored_def demo_defs)
  moreover have "map_option reserved_items (map_of (users demo_returned) ''u1'') = Some [''i1'']"
    "map_option reserved_by (map_of (items demo_returned) ''i1'') = Some []"
    by (simp_all add: demo_defs)
  ultimately show ?thesis using run_demo return_demo by simp
qed

subsection \<open>Saving and loading\<close>

lemma codec_ok_tally: "codec_ok tally_isoformat tally_fromisoformat"
  by (simp add: codec_ok_def tally_isoformat_def tally_fromisoformat_def)

lemma keys_ok_demo: "keys_ok demo_db"
  by (simp add: keys_ok_def demo_defs)

text \<open>
  Claim C8. Saving a store and loading the saved document gives back the same store,
  field for field: the users with their lists and fines, the items with their kind and
  its own fields, status, \<open>checked_out_to\<close>, the queue \<open>reserved_by\<close> and both timestamps,
  an unset \<open>checked_out_to\<close> or \<open>due_date\<close> coming back as \<open>None\<close>; the file is left as it
  was. The store is one whose dicts are keyed by the ids of its entities (\<open>keys_ok\<close>),
  which every reachable store is (\<open>reachable_good\<close>), and the standard library's
  \<^verbatim>\<open>fromisoformat\<close> parses what \<^verbatim>\<open>isoformat\<close> writes (\<open>codec_ok\<close>).
\<close>

theorem save_load_roundtrip:
  assumes k: "keys_ok db" and c: "codec_ok isoformat fromisoformat"
  shows "load_data isoformat fromisoformat (Some (save_data isoformat db)) =
           Inr (db, Some (save_data isoformat db))"
proof -
  from k have u: "load_users (map (\<lambda>(k, user). JDict (LibraryUser_to_dict user)) (users db)) []
                    = Inr (users db)"
    using load_users_saved [of "[]" "users db"] by (simp add: keys_ok_def)
  from k have i: "load_items fromisoformat
                    (map (\<lambda>(k, item). JDict (to_dict isoformat item)) (items db)) []
                    = Inr (items db)"
    using load_items_saved [OF c, of "[]" "items db"] by (simp add: keys_ok_def)
  show ?thesis
    by (simp add: load_data_def save_data_def get_default_def bind_exn_def u i)
qed

theorem save_load_roundtrip_witness:
  "keys_ok demo_db \<and> codec_ok tally_isoformat tally_fromisoformat \<and>
   load_data tally_isoformat tally_fromisoformat (Some (save_data tally_isoformat demo_db)) =
     Inr (demo_db, Some (save_data tally_isoformat demo_db))"
  using save_load_roundtrip [OF keys_ok_demo codec_ok_tally] keys_ok_demo codec_ok_tally
  by simp

end
